theory Spec2Isabelle
  imports Main
begin

section \<open>JavaScript values\<close>

text \<open>
  The values the two actions handle at run time: the results of \<open>JSON.parse\<close>, the
  members of Drive API responses, and the properties read from caught errors.  Numbers
  are integers here (HTTP status codes and ports are); \<open>NaN\<close> and fractions do not
  occur in what the source inspects.
\<close>

datatype js_value =
    JUndefined
  | JNull
  | JBool bool
  | JNum int
  | JStr string
  | JArr "js_value list"
  | JObj "(string \<times> js_value) list"

text \<open>ToBoolean, as used by \<open>if (x)\<close>, \<open>!x\<close>, \<open>x && y\<close> and \<open>x || y\<close>.\<close>

fun truthy :: "js_value \<Rightarrow> bool" where
  "truthy JUndefined = False"
| "truthy JNull = False"
| "truthy (JBool b) = b"
| "truthy (JNum n) = (n \<noteq> 0)"
| "truthy (JStr s) = (s \<noteq> [])"
| "truthy (JArr xs) = True"
| "truthy (JObj kvs) = True"

text \<open>A value of TypeScript type \<open>string | undefined\<close> is a \<open>string option\<close>.\<close>

definition truthy_str :: "string option \<Rightarrow> bool" where
  "truthy_str v = (case v of None \<Rightarrow> False | Some s \<Rightarrow> s \<noteq> [])"

definition of_str :: "string option \<Rightarrow> js_value" where
  "of_str v = (case v of None \<Rightarrow> JUndefined | Some s \<Rightarrow> JStr s)"

text \<open>\<open>v !== n\<close> for a number literal \<open>n\<close>: false only when \<open>v\<close> is that number.\<close>

definition strict_neq_num :: "js_value \<Rightarrow> int \<Rightarrow> bool" where
  "strict_neq_num v n = (v \<noteq> JNum n)"

subsection \<open>Thrown values\<close>

text \<open>
  What a rejected promise or a \<open>throw\<close> carries.  The source throws bare strings
  (\<open>reject("...")\<close>, \<open>throw "..."\<close>) and catches the error objects of its libraries,
  of which it reads \<open>message\<close>, \<open>code\<close>, \<open>reason\<close>, \<open>status\<close>, \<open>config\<close> and
  \<open>response.config\<close>.  A property the object lacks reads as \<open>JUndefined\<close>, and so does
  every property of a thrown string.  None of the libraries rejects with \<open>null\<close> or
  \<open>undefined\<close>, so these are not thrown values here.
\<close>

record request_config =
  cfg_data :: js_value
  cfg_body :: js_value

record error_obj =
  e_message :: js_value
  e_code :: js_value
  e_reason :: js_value
  e_status :: js_value
  e_config :: "request_config option"
  e_response_config :: "request_config option"

datatype thrown = ThrownString string | ThrownError error_obj

definition plain_error :: "string \<Rightarrow> error_obj" where
  "plain_error msg = \<lparr> e_message = JStr msg, e_code = JUndefined, e_reason = JUndefined,
     e_status = JUndefined, e_config = None, e_response_config = None \<rparr>"

text \<open>The runtime's own faults; the message text is the engine's and is not inspected.\<close>

definition TypeError :: thrown where
  "TypeError = ThrownError (plain_error ''TypeError'')"

fun thrown_message :: "thrown \<Rightarrow> js_value" where
  "thrown_message (ThrownString s) = JUndefined"
| "thrown_message (ThrownError e) = e_message e"

fun thrown_code :: "thrown \<Rightarrow> js_value" where
  "thrown_code (ThrownString s) = JUndefined"
| "thrown_code (ThrownError e) = e_code e"

fun thrown_reason :: "thrown \<Rightarrow> js_value" where
  "thrown_reason (ThrownString s) = JUndefined"
| "thrown_reason (ThrownError e) = e_reason e"

fun thrown_status :: "thrown \<Rightarrow> js_value" where
  "thrown_status (ThrownString s) = JUndefined"
| "thrown_status (ThrownError e) = e_status e"

text \<open>
  Property read \<open>v.k\<close> for the keys the source reads from parsed JSON (\<open>tokens\<close>,
  \<open>redirect\<close>, \<open>stateurl\<close>, \<open>id\<close>, \<open>name\<close>): a TypeError on \<open>null\<close> and
  \<open>undefined\<close>, the member on an object, \<open>undefined\<close> on everything else.
\<close>

fun get_prop :: "js_value \<Rightarrow> string \<Rightarrow> thrown + js_value" where
  "get_prop JUndefined k = Inl TypeError"
| "get_prop JNull k = Inl TypeError"
| "get_prop (JObj kvs) k = Inr (case map_of kvs k of None \<Rightarrow> JUndefined | Some v \<Rightarrow> v)"
| "get_prop v k = Inr JUndefined"

section \<open>The hub's data model\<close>

text \<open>
  \<open>Hub.ActionRequest\<close>, \<open>Hub.ActionResponse\<close>, \<open>Hub.ActionForm\<close> and \<open>Hub.ActionState\<close>
  are declared outside the two source files; the records hold the members the source
  reads and writes.  \<open>suggestedFilename\<close> is the result of the request's method of
  that name.
\<close>

type_synonym buffer = "nat list"

record Attachment =
  dataBuffer :: "buffer option"
  mime :: "string option"

record ActionRequest =
  params :: "string \<rightharpoonup> string"
  formParams :: "string \<rightharpoonup> string"
  attachment :: "Attachment option"
  webhookId :: "string option"
  suggestedFilename :: "string option"

record ActionState =
  data :: "string option"

record Error =
  http_code :: js_value
  status_code :: string
  err_message :: string
  location :: string
  documentation_url :: string

record ActionResponse =
  success :: bool
  message :: js_value
  error :: "Error option"
  state :: "ActionState option"
  resp_webhookId :: "string option"

record select_option =
  opt_name :: js_value
  opt_label :: js_value

record form_field =
  field_name :: string
  field_label :: string
  field_description :: "string option"
  field_type :: string
  field_required :: "bool option"
  field_interactive :: "bool option"
  field_options :: "select_option list option"
  field_default :: "js_value option"
  field_oauth_url :: "string option"

record ActionForm =
  form_fields :: "form_field list"
  form_state :: "ActionState option"

definition new_ActionState :: ActionState where
  "new_ActionState = \<lparr> data = None \<rparr>"

definition new_ActionForm :: ActionForm where
  "new_ActionForm = \<lparr> form_fields = [], form_state = None \<rparr>"

definition new_field :: "string \<Rightarrow> string \<Rightarrow> string \<Rightarrow> form_field" where
  "new_field n l t = \<lparr> field_name = n, field_label = l, field_description = None,
     field_type = t, field_required = None, field_interactive = None,
     field_options = None, field_default = None, field_oauth_url = None \<rparr>"

section \<open>External collaborators\<close>

record http_error =
  he_code :: js_value
  he_status :: string
  he_description :: string

record OAuth2Client =
  clientId :: "string option"
  clientSecret :: "string option"
  redirectUri :: js_value
  credentials :: js_value

record auth_url_opts =
  access_type :: string
  scope :: "string list"
  prompt :: string
  auth_state :: string

record list_options =
  lo_fields :: "string option"
  orderBy :: "string option"
  pageSize :: "nat option"
  q :: "string option"
  spaces :: "string option"
  corpora :: "string option"
  lo_driveId :: "string option"
  includeItemsFromAllDrives :: "bool option"
  lo_supportsAllDrives :: "bool option"
  pageToken :: "string option"

record file_list =
  files :: "js_value list option"
  nextPageToken :: "string option"

record shared_drive =
  drive_id :: js_value
  drive_name :: js_value

record file_metadata =
  fm_name :: string
  fm_mimeType :: "string option"
  parents :: "string list option"
  fm_driveId :: "string option"

record create_params =
  requestBody :: file_metadata
  supportsAllDrives :: "bool option"

text \<open>
  A call that returns a promise has three outcomes: it throws before it returns the
  promise (a \<open>.catch\<close> chained on the call never sees that), or the promise rejects,
  or the promise resolves.
\<close>

datatype 'a call = Throws thrown | Rejects thrown | Resolves 'a

record parsed_url =
  pathname :: string
  hostname :: string
  port :: "nat option"

record connect_options =
  host :: string
  username :: "string option"
  password :: "string option"
  port_number :: nat

text \<open>
  Everything the actions call but do not define: the JavaScript runtime
  (\<open>JSON.parse\<close>, \<open>JSON.stringify\<close>, ToString, \<open>new URL\<close>, \<open>Path.join\<close>), the process
  environment, the hub (\<open>ActionCrypto\<close>, \<open>new ActionResponse()\<close>, \<open>HTTP_ERROR\<close>,
  \<open>errorWith\<close>), the Google client libraries, \<open>request-promise-native\<close> and
  \<open>ssh2-sftp-client\<close>.  A call that can reject returns \<open>Inl\<close> of what it rejects with.
  \<open>https.post\<close>, whose promise the source handles apart from the call, has the three
  outcomes of a \<open>call\<close>: it throws at once on an option it cannot take, such as a
  \<open>url\<close> that is neither a string nor absent.
  \<open>winston\<close> and \<open>console\<close> logging is not modelled.
\<close>

record world =
  JSON_parse :: "string \<Rightarrow> thrown + js_value"
  JSON_stringify :: "js_value \<Rightarrow> string"
  to_string :: "js_value \<Rightarrow> string"
  GOOGLE_DRIVE_CLIENT_ID :: "string option"
  GOOGLE_DRIVE_CLIENT_SECRET :: "string option"
  ACTION_HUB_BASE_URL :: "string option"
  encrypt :: "string \<Rightarrow> thrown + string"
  decrypt :: "string option \<Rightarrow> thrown + string"
  new_ActionResponse :: ActionResponse
  bad_request :: http_error
  internal :: http_error
  errorWith :: "http_error \<Rightarrow> string \<Rightarrow> Error"
  generateAuthUrl :: "OAuth2Client \<Rightarrow> auth_url_opts \<Rightarrow> string"
  getToken :: "OAuth2Client \<Rightarrow> string option \<Rightarrow> thrown + js_value"
  drives_list :: "OAuth2Client \<Rightarrow> nat \<Rightarrow> thrown + shared_drive list option"
  files_list :: "OAuth2Client \<Rightarrow> list_options \<Rightarrow> thrown + file_list"
  files_create :: "OAuth2Client \<Rightarrow> create_params \<Rightarrow> thrown + js_value"
  https_post :: "js_value \<Rightarrow> string \<Rightarrow> unit call"
  new_URL :: "string \<Rightarrow> thrown + parsed_url"
  Path_join :: "string \<Rightarrow> string \<Rightarrow> string"
  sftp_connect :: "connect_options \<Rightarrow> thrown + unit"
  sftp_put :: "connect_options \<Rightarrow> buffer \<Rightarrow> string \<Rightarrow> thrown + unit"

text \<open>The calls whose absence or presence the properties below speak about.\<close>

datatype event =
    TokenExchange OAuth2Client "string option"
  | HttpPost js_value string
  | FilesCreate OAuth2Client create_params
  | SftpConnect connect_options
  | SftpPut buffer string

section \<open>The Google Drive action\<close>

definition action_name :: string where
  "action_name = ''google_drive''"

definition this_mimeType :: "string option" where
  "this_mimeType = None"

definition oauth2Client :: "world \<Rightarrow> js_value \<Rightarrow> OAuth2Client" where
  "oauth2Client w redirect =
     \<lparr> clientId = GOOGLE_DRIVE_CLIENT_ID w, clientSecret = GOOGLE_DRIVE_CLIENT_SECRET w,
       redirectUri = redirect, credentials = JUndefined \<rparr>"

text \<open>
  \<open>google.drive({version: "v3", auth: client})\<close>: the Drive client is identified with
  the OAuth2 client it authenticates with.
\<close>

definition driveClientFromRequest :: "world \<Rightarrow> js_value \<Rightarrow> js_value \<Rightarrow> OAuth2Client" where
  "driveClientFromRequest w redirect tokens = (oauth2Client w redirect)\<lparr> credentials := tokens \<rparr>"

definition getAccessTokenCredentialsFromCode ::
    "world \<Rightarrow> js_value \<Rightarrow> string option \<Rightarrow> event list \<times> (thrown + js_value)" where
  "getAccessTokenCredentialsFromCode w redirect code =
     (let client = oauth2Client w redirect
      in ([TokenExchange client code], getToken w client code))"

text \<open>
  \<open>stateJson.tokens && stateJson.redirect\<close>, the test of \<open>execute\<close>, \<open>form\<close> and
  \<open>oauthCheck\<close>: the two members when both are truthy, a TypeError when \<open>stateJson\<close>
  is \<open>null\<close>.
\<close>

definition tokens_and_redirect :: "js_value \<Rightarrow> thrown + (js_value \<times> js_value) option" where
  "tokens_and_redirect stateJson =
     (case get_prop stateJson ''tokens'' of
        Inl e \<Rightarrow> Inl e
      | Inr tokens \<Rightarrow>
          if truthy tokens then
            (case get_prop stateJson ''redirect'' of
               Inl e \<Rightarrow> Inl e
             | Inr redirect \<Rightarrow> Inr (if truthy redirect then Some (tokens, redirect) else None))
          else Inr None)"

definition getMimeType :: "ActionRequest \<Rightarrow> string option" where
  "getMimeType request =
     (if truthy_str this_mimeType then this_mimeType
      else if (case attachment request of None \<Rightarrow> False | Some a \<Rightarrow> truthy_str (mime a))
        then (case attachment request of None \<Rightarrow> None | Some a \<Rightarrow> mime a)
      else (let format = formParams request ''format'' in
        if format = Some ''csv'' then Some ''text/csv''
        else if format = Some ''xlsx''
          then Some ''application/vnd.openxmlformats-officedocument.spreadsheetml.sheet''
        else if format = Some ''inline_json'' then Some ''application/json''
        else if format = Some ''json'' then Some ''application/json''
        else if format = Some ''json_label'' then Some ''application/json''
        else if format = Some ''json_detail'' then Some ''application/json''
        else if format = Some ''html'' then Some ''text/html''
        else if format = Some ''txt'' then Some ''text/plain''
        else None))"

definition redact :: "request_config \<Rightarrow> request_config" where
  "redact config =
     \<lparr> cfg_data = (if truthy (cfg_data config) then JStr ''[REDACTED]'' else cfg_data config),
       cfg_body = (if truthy (cfg_body config) then JStr ''[REDACTED]'' else cfg_body config) \<rparr>"

fun sanitizeGaxiosError :: "thrown \<Rightarrow> thrown" where
  "sanitizeGaxiosError (ThrownString s) = ThrownString s"
| "sanitizeGaxiosError (ThrownError err) =
     ThrownError (err\<lparr> e_config := map_option redact (e_config err),
                       e_response_config := map_option redact (e_response_config err) \<rparr>)"

text \<open>
  \<open>request.stream(callback)\<close> is the hub's: it runs the callback on the payload stream
  and settles as the callback does.
\<close>

definition sendData ::
    "world \<Rightarrow> string \<Rightarrow> ActionRequest \<Rightarrow> OAuth2Client \<Rightarrow> event list \<times> (thrown + js_value)" where
  "sendData w filename request drive =
     (let mimeType = getMimeType request;
          fileMetadata = \<lparr> fm_name = filename, fm_mimeType = mimeType,
            parents = (if truthy_str (formParams request ''folder'')
                       then map_option (\<lambda>folder. [folder]) (formParams request ''folder'')
                       else None),
            fm_driveId = None \<rparr>;
          driveParams =
            (if formParams request ''drive'' \<noteq> None \<and> formParams request ''drive'' \<noteq> Some ''mydrive''
             then \<lparr> requestBody = fileMetadata\<lparr> fm_driveId := formParams request ''drive'' \<rparr>,
                    supportsAllDrives = Some True \<rparr>
             else \<lparr> requestBody = fileMetadata, supportsAllDrives = None \<rparr>)
      in ([FilesCreate drive driveParams],
          (case files_create w drive driveParams of
             Inl e \<Rightarrow> Inl (sanitizeGaxiosError e)
           | Inr v \<Rightarrow> Inr v)))"

text \<open>The response of \<open>execute\<close> when no filename can be made (lines 41 to 53).\<close>

definition no_filename_response :: "world \<Rightarrow> ActionRequest \<Rightarrow> ActionResponse \<Rightarrow> ActionResponse" where
  "no_filename_response w request resp =
     (let error = \<lparr> http_code = he_code (bad_request w),
                     status_code = he_status (bad_request w),
                     err_message = he_description (bad_request w) @ '' Error creating filename from request'',
                     location = ''ActionContainer'',
                     documentation_url = ''TODO'' \<rparr>
      in resp\<lparr> success := False, error := Some error, message := JStr (err_message error),
               resp_webhookId := webhookId request \<rparr>)"

text \<open>The \<open>catch\<close> block of \<open>execute\<close> around \<open>sendData\<close> (lines 58 to 73).\<close>

definition send_failed_response ::
    "world \<Rightarrow> ActionRequest \<Rightarrow> ActionResponse \<Rightarrow> thrown \<Rightarrow> ActionResponse" where
  "send_failed_response w request resp e =
     (let error0 = errorWith w (internal w) (''Error while sending data '' @ to_string w (thrown_message e));
          error = (if truthy (thrown_code e) \<and> truthy (thrown_reason e)
                   then error0\<lparr> http_code := thrown_code e,
                          err_message := he_description (internal w) @ '' '' @ to_string w (thrown_reason e) \<rparr>
                   else error0)
      in resp\<lparr> success := False, message := thrown_message e,
               resp_webhookId := webhookId request, error := Some error \<rparr>)"

definition GoogleDriveAction_execute ::
    "world \<Rightarrow> ActionRequest \<Rightarrow> event list \<times> (thrown + ActionResponse)" where
  "GoogleDriveAction_execute w request =
     (let resp = new_ActionResponse w;
          reset = resp\<lparr> success := False, state := Some (new_ActionState\<lparr> data := Some ''reset'' \<rparr>) \<rparr>
      in case params request ''state_json'' of
        None \<Rightarrow> ([], Inr reset)
      | Some state_json \<Rightarrow>
          if state_json = [] then ([], Inr reset)
          else
            (case JSON_parse w state_json of
               Inl e \<Rightarrow> ([], Inl e)
             | Inr stateJson \<Rightarrow>
                 (case tokens_and_redirect stateJson of
                    Inl e \<Rightarrow> ([], Inl e)
                  | Inr None \<Rightarrow> ([], Inr reset)
                  | Inr (Some (tokens, redirect)) \<Rightarrow>
                      (let drive = driveClientFromRequest w redirect tokens;
                           filename = (if truthy_str (formParams request ''filename'')
                                       then formParams request ''filename''
                                       else suggestedFilename request)
                       in case filename of
                         None \<Rightarrow> ([], Inr (no_filename_response w request resp))
                       | Some fname \<Rightarrow>
                           if fname = [] then ([], Inr (no_filename_response w request resp))
                           else
                             (case sendData w fname request drive of
                                (evs, Inr v) \<Rightarrow> (evs, Inr (resp\<lparr> success := True \<rparr>))
                              | (evs, Inl e) \<Rightarrow> (evs, Inr (send_failed_response w request resp e)))))))"

definition getDrives :: "world \<Rightarrow> OAuth2Client \<Rightarrow> thrown + select_option list" where
  "getDrives w drive =
     (let driveList = [\<lparr> opt_name = JStr ''mydrive'', opt_label = JStr ''My Drive'' \<rparr>]
      in case drives_list w drive 50 of
        Inl e \<Rightarrow> Inl e
      | Inr drives \<Rightarrow>
          (case drives of
             None \<Rightarrow> Inr driveList
           | Some ds \<Rightarrow>
               Inr (driveList @ map (\<lambda>d. \<lparr> opt_name = drive_id d, opt_label = drive_name d \<rparr>) ds)))"

definition generateQuery :: "string \<Rightarrow> string" where
  "generateQuery search =
     (let query = ''mimeType='application/vnd.google-apps.folder' and trashed=false''
      in if search \<noteq> [] then query @ '' and name contains '' @ [CHR 0x27] @ search @ [CHR 0x27]
         else query)"

text \<open>
  The \<open>catch\<close> handler on the first \<open>drive.files.list\<close> call of \<open>form\<close> (lines 136 to
  143).  \<open>None\<close> is the \<open>undefined\<close> the handler returns when it falls through its \<open>if\<close>.
\<close>

definition files_list_catch :: "thrown \<Rightarrow> file_list option" where
  "files_list_catch reason =
     (if strict_neq_num (thrown_status reason) 401 \<or> strict_neq_num (thrown_status reason) 403
      then Some \<lparr> files = Some [], nextPageToken = None \<rparr>
      else None)"

text \<open>
  The paging loop.  It runs for as long as the API returns a truthy \<open>nextPageToken\<close>, so
  it takes fuel: one unit per call, \<open>None\<close> when the fuel runs out.  \<open>concat\<close> of
  \<open>undefined\<close> appends \<open>undefined\<close> as an element; \<open>response.data\<close> of an
  \<open>undefined\<close> response is a TypeError.
\<close>

fun pagedFileList ::
    "nat \<Rightarrow> world \<Rightarrow> OAuth2Client \<Rightarrow> list_options \<Rightarrow> js_value list \<Rightarrow> file_list option
     \<Rightarrow> (thrown + js_value list) option" where
  "pagedFileList 0 w drive options accumulatedFiles response = None"
| "pagedFileList (Suc fuel) w drive options accumulatedFiles response =
     (case response of
        None \<Rightarrow> Some (Inl TypeError)
      | Some r \<Rightarrow>
          (let mergedFiles = accumulatedFiles @ (case files r of None \<Rightarrow> [JUndefined] | Some fs \<Rightarrow> fs)
           in if truthy_str (nextPageToken r) then
                (case files_list w drive (options\<lparr> pageToken := nextPageToken r \<rparr>) of
                   Inl e \<Rightarrow> Some (Inl e)
                 | Inr r' \<Rightarrow> pagedFileList fuel w drive options mergedFiles (Some r'))
              else Some (Inr mergedFiles)))"

text \<open>
  \<open>paginatedFiles.filter(...).map(...)\<close> (lines 144 to 146): reading \<open>folder.id\<close> of a
  \<open>null\<close> or \<open>undefined\<close> element is a TypeError; an element whose \<open>id\<close> or \<open>name\<close> is
  \<open>undefined\<close> is dropped.
\<close>

fun folder_options :: "js_value list \<Rightarrow> thrown + select_option list" where
  "folder_options [] = Inr []"
| "folder_options (folder # rest) =
     (case get_prop folder ''id'' of
        Inl e \<Rightarrow> Inl e
      | Inr fid \<Rightarrow>
          (case get_prop folder ''name'' of
             Inl e \<Rightarrow> Inl e
           | Inr fname \<Rightarrow>
               (case folder_options rest of
                  Inl e \<Rightarrow> Inl e
                | Inr opts \<Rightarrow>
                    Inr (if fid \<noteq> JUndefined \<and> fname \<noteq> JUndefined
                         then \<lparr> opt_name = fid, opt_label = fname \<rparr> # opts
                         else opts))))"

text \<open>
  The fields that the block guarded by \<open>request.formParams.search !== undefined\<close> pushes
  (lines 103 to 164): none when \<open>search\<close> is absent.
\<close>

definition folder_fields ::
    "nat \<Rightarrow> world \<Rightarrow> ActionRequest \<Rightarrow> OAuth2Client \<Rightarrow> (thrown + form_field list) option" where
  "folder_fields fuel w request drive =
     (case formParams request ''search'' of
        None \<Rightarrow> Some (Inr [])
      | Some search \<Rightarrow>
          (let query = generateQuery search;
               options0 = \<lparr> lo_fields = Some ''files(id,name,parents),nextPageToken'',
                 orderBy = Some ''recency desc'', pageSize = Some 1000, q = Some query,
                 spaces = Some ''drive'', corpora = None, lo_driveId = None,
                 includeItemsFromAllDrives = None, lo_supportsAllDrives = None, pageToken = None \<rparr>;
               options =
                 (if formParams request ''drive'' \<noteq> None \<and> formParams request ''drive'' \<noteq> Some ''mydrive''
                  then options0\<lparr> lo_driveId := formParams request ''drive'',
                         includeItemsFromAllDrives := Some True, lo_supportsAllDrives := Some True,
                         corpora := Some ''drive'' \<rparr>
                  else options0\<lparr> corpora := Some ''user'' \<rparr>);
               first = (case files_list w drive options of
                          Inl reason \<Rightarrow> files_list_catch reason
                        | Inr r \<Rightarrow> Some r)
           in case pagedFileList fuel w drive options [] first of
             None \<Rightarrow> None
           | Some (Inl e) \<Rightarrow> Some (Inl e)
           | Some (Inr paginatedFiles) \<Rightarrow>
               (case folder_options paginatedFiles of
                  Inl e \<Rightarrow> Some (Inl e)
                | Inr found \<Rightarrow>
                    (let folders = \<lparr> opt_name = JStr ''root'', opt_label = JStr ''Drive Root'' \<rparr> # found
                     in Some (Inr
                       [ (new_field ''folder'' ''Select folder to save file'' ''select'')
                           \<lparr> field_description := Some ''Google Drive folder where your file will be saved'',
                             field_options := Some folders,
                             field_default := Some (opt_name (hd folders)),
                             field_required := Some True \<rparr>,
                         (new_field ''filename'' ''Enter a name'' ''string'')
                           \<lparr> field_required := Some True \<rparr> ])))))"

definition env_str :: "string option \<Rightarrow> string" where
  "env_str v = (case v of None \<Rightarrow> ''undefined'' | Some s \<Rightarrow> s)"

definition loginForm :: "world \<Rightarrow> ActionRequest \<Rightarrow> thrown + ActionForm" where
  "loginForm w request =
     (let jsonString = JSON_stringify w (JObj [(''stateurl'', of_str (params request ''state_url''))])
      in case encrypt w jsonString of
        Inl err \<Rightarrow> Inl err
      | Inr ciphertextBlob \<Rightarrow>
          Inr (new_ActionForm\<lparr>
            form_state := Some new_ActionState,
            form_fields :=
              [ (new_field ''login'' ''Log in'' ''oauth_link_google'')
                  \<lparr> field_description := Some (''In order to send to Google Drive, you will need to log in''
                       @ '' once to your Google account.''),
                    field_oauth_url := Some (env_str (ACTION_HUB_BASE_URL w) @ ''/actions/''
                       @ action_name @ ''/oauth?state='' @ ciphertextBlob) \<rparr> ] \<rparr>))"

text \<open>
  The body of the \<open>try\<close> block of \<open>form\<close> (lines 86 to 185): \<open>Inr (Some f)\<close> when it
  returns the form \<open>f\<close>, \<open>Inr None\<close> when it falls out of the \<open>if\<close>, \<open>Inl e\<close> when it
  throws \<open>e\<close>.  \<open>driveSelections[0].name\<close> of an empty list is a TypeError.
\<close>

definition form_try ::
    "nat \<Rightarrow> world \<Rightarrow> ActionRequest \<Rightarrow> string \<Rightarrow> (thrown + ActionForm option) option" where
  "form_try fuel w request state_json =
     (case JSON_parse w state_json of
        Inl e \<Rightarrow> Some (Inl e)
      | Inr stateJson \<Rightarrow>
          (case tokens_and_redirect stateJson of
             Inl e \<Rightarrow> Some (Inl e)
           | Inr None \<Rightarrow> Some (Inr None)
           | Inr (Some (tokens, redirect)) \<Rightarrow>
               (let drive = driveClientFromRequest w redirect tokens
                in case getDrives w drive of
                  Inl e \<Rightarrow> Some (Inl e)
                | Inr [] \<Rightarrow> Some (Inl TypeError)
                | Inr (first_drive # more_drives) \<Rightarrow>
                    (let driveSelections = first_drive # more_drives;
                         drive_field =
                           (new_field ''drive'' ''Select Drive to save file'' ''select'')
                             \<lparr> field_description := Some ''Google Drive where your file will be saved'',
                               field_options := Some driveSelections,
                               field_default := Some (opt_name first_drive),
                               field_interactive := Some True,
                               field_required := Some True \<rparr>
                     in case folder_fields fuel w request drive of
                       None \<Rightarrow> None
                     | Some (Inl e) \<Rightarrow> Some (Inl e)
                     | Some (Inr ffields) \<Rightarrow>
                         Some (Inr (Some (new_ActionForm\<lparr>
                           form_fields := [drive_field] @ ffields @
                             [ (new_field ''fetch'' ''Fetch Folders'' ''select'')
                                 \<lparr> field_description := Some (''After entering text to search below, select ''
                                      @ [CHR 0x22] @ ''Fetch Folders'' @ [CHR 0x22]),
                                   field_required := Some True,
                                   field_interactive := Some True,
                                   field_options := Some
                                     [ \<lparr> opt_name = JStr ''reset'', opt_label = JStr ''Reset'' \<rparr>,
                                       \<lparr> opt_name = JStr ''fetch'', opt_label = JStr ''Fetch Folders'' \<rparr> ] \<rparr>,
                               (new_field ''search'' ''Folder Name Search'' ''string'')
                                 \<lparr> field_required := Some True \<rparr> ],
                           form_state := Some (new_ActionState\<lparr> data := Some (JSON_stringify w
                             (JObj [(''tokens'', tokens), (''redirect'', redirect)])) \<rparr>) \<rparr>)))))))"

text \<open>
  \<open>form\<close>: the \<open>catch\<close> block only logs, so a throw in the \<open>try\<close> block and a fall
  through its \<open>if\<close> both end in \<open>loginForm\<close>.
\<close>

definition GoogleDriveAction_form :: "nat \<Rightarrow> world \<Rightarrow> ActionRequest \<Rightarrow> (thrown + ActionForm) option" where
  "GoogleDriveAction_form fuel w request =
     (case params request ''state_json'' of
        None \<Rightarrow> Some (loginForm w request)
      | Some state_json \<Rightarrow>
          if state_json = [] then Some (loginForm w request)
          else
            (case form_try fuel w request state_json of
               None \<Rightarrow> None
             | Some (Inr (Some f)) \<Rightarrow> Some (Inr f)
             | Some (Inr None) \<Rightarrow> Some (loginForm w request)
             | Some (Inl e) \<Rightarrow> Some (loginForm w request)))"

definition oauthUrl :: "world \<Rightarrow> string \<Rightarrow> string \<Rightarrow> string" where
  "oauthUrl w redirect encryptedState =
     (let oauth2 = oauth2Client w (JStr redirect);
          scopes = [''https://www.googleapis.com/auth/drive'']
      in generateAuthUrl w oauth2
           \<lparr> access_type = ''offline'', scope = scopes, prompt = ''consent'',
             auth_state = encryptedState \<rparr>)"

text \<open>
  \<open>oauthFetchInfo\<close>: the \<open>catch\<close> on \<open>decrypt\<close> logs and rethrows; the \<open>catch\<close> on
  the promise of \<open>https.post\<close> logs and swallows a rejection, and does not cover a throw
  of the call itself, which rejects \<open>oauthFetchInfo\<close>.
\<close>

definition oauthFetchInfo ::
    "world \<Rightarrow> (string \<rightharpoonup> string) \<Rightarrow> string \<Rightarrow> event list \<times> (thrown + unit)" where
  "oauthFetchInfo w urlParams redirect =
     (case decrypt w (urlParams ''state'') of
        Inl err \<Rightarrow> ([], Inl err)
      | Inr plaintext \<Rightarrow>
          (case getAccessTokenCredentialsFromCode w (JStr redirect) (urlParams ''code'') of
             (evs, Inl e) \<Rightarrow> (evs, Inl e)
           | (evs, Inr tokens) \<Rightarrow>
               (case JSON_parse w plaintext of
                  Inl e \<Rightarrow> (evs, Inl e)
                | Inr payload \<Rightarrow>
                    (case get_prop payload ''stateurl'' of
                       Inl e \<Rightarrow> (evs, Inl e)
                     | Inr url \<Rightarrow>
                         (let body = JSON_stringify w
                                (JObj [(''tokens'', tokens), (''redirect'', JStr redirect)])
                          in (evs @ [HttpPost url body],
                              (case https_post w url body of
                                 Throws e \<Rightarrow> Inl e
                               | Rejects err \<Rightarrow> Inr ()
                               | Resolves u \<Rightarrow> Inr ())))))))"

definition oauthCheck :: "world \<Rightarrow> ActionRequest \<Rightarrow> thrown + bool" where
  "oauthCheck w request =
     (case params request ''state_json'' of
        None \<Rightarrow> Inr False
      | Some state_json \<Rightarrow>
          if state_json = [] then Inr False
          else
            (case JSON_parse w state_json of
               Inl e \<Rightarrow> Inl e
             | Inr stateJson \<Rightarrow>
                 (case tokens_and_redirect stateJson of
                    Inl e \<Rightarrow> Inl e
                  | Inr None \<Rightarrow> Inr False
                  | Inr (Some (tokens, redirect)) \<Rightarrow>
                      (let drive = driveClientFromRequest w redirect tokens
                       in case files_list w drive
                            \<lparr> lo_fields = None, orderBy = None, pageSize = Some 10, q = None,
                              spaces = None, corpora = None, lo_driveId = None,
                              includeItemsFromAllDrives = None, lo_supportsAllDrives = None,
                              pageToken = None \<rparr> of
                         Inl e \<Rightarrow> Inl e
                       | Inr r \<Rightarrow> Inr True))))"

section \<open>The SFTP action\<close>

text \<open>
  \<open>execute\<close> returns \<open>new Promise(async (resolve, reject) => ...)\<close>.  The promise settles
  only through \<open>resolve\<close> and \<open>reject\<close>: a throw inside the \<open>async\<close> executor rejects
  the executor's own promise, which nothing observes, and leaves the returned one pending.
\<close>

datatype 'a settled = Resolved 'a | Rejected thrown | NeverSettles

definition sftpClientFromRequest ::
    "world \<Rightarrow> ActionRequest \<Rightarrow> event list \<times> (thrown + connect_options)" where
  "sftpClientFromRequest w request =
     (case formParams request ''address'' of
        None \<Rightarrow> ([], Inl TypeError)
      | Some address \<Rightarrow>
          (case new_URL w address of
             Inl e \<Rightarrow> ([], Inl e)
           | Inr parsedUrl \<Rightarrow>
               if hostname parsedUrl = [] then ([], Inl (ThrownString ''Needs a valid SFTP address. [3]''))
               else
                 (let client = \<lparr> host = hostname parsedUrl,
                        username = formParams request ''username'',
                        password = formParams request ''password'',
                        port_number = (case port parsedUrl of None \<Rightarrow> 22 | Some p \<Rightarrow> p) \<rparr>
                  in case sftp_connect w client of
                    Inl e \<Rightarrow> ([SftpConnect client], Inl e)
                  | Inr u \<Rightarrow> ([SftpConnect client], Inr client))))"

definition SFTPAction_execute :: "world \<Rightarrow> ActionRequest \<Rightarrow> event list \<times> ActionResponse settled" where
  "SFTPAction_execute w request =
     (case (case attachment request of None \<Rightarrow> None | Some a \<Rightarrow> dataBuffer a) of
        None \<Rightarrow> ([], Rejected (ThrownString ''Couldn't get data from attachment.''))
      | Some payload \<Rightarrow>
          (case formParams request ''address'' of
             None \<Rightarrow> ([], Rejected (ThrownString ''Needs a valid SFTP address. [1]''))
           | Some address \<Rightarrow>
               if address = [] then ([], Rejected (ThrownString ''Needs a valid SFTP address. [1]''))
               else
                 (case sftpClientFromRequest w request of
                    (evs, Inl e) \<Rightarrow> (evs, NeverSettles)
                  | (evs, Inr client) \<Rightarrow>
                      (case new_URL w address of
                         Inl e \<Rightarrow> (evs, NeverSettles)
                       | Inr parsedUrl \<Rightarrow>
                           if pathname parsedUrl = [] then (evs, NeverSettles)
                           else
                             (case (if truthy_str (formParams request ''filename'')
                                    then formParams request ''filename''
                                    else suggestedFilename request) of
                                None \<Rightarrow> (evs, NeverSettles)
                              | Some fileName \<Rightarrow>
                                  (let remotePath = Path_join w (pathname parsedUrl) fileName
                                   in (evs @ [SftpPut payload remotePath],
                                       (case sftp_put w client payload remotePath of
                                          Inr u \<Rightarrow> Resolved (new_ActionResponse w)
                                        | Inl err \<Rightarrow>
                                            Resolved ((new_ActionResponse w)
                                              \<lparr> success := False, message := thrown_message err \<rparr>)))))))))"

section \<open>A sample world and sample requests\<close>

text \<open>
  Concrete collaborators on which the properties below are evaluated: a provider that
  accepts one set of tokens and answers 401 to every other, a codec that knows one
  ciphertext, and a JSON reader that knows the documents the samples use.
\<close>

definition sample_tokens :: js_value where
  "sample_tokens = JObj [(''access_token'', JStr ''ya29.a0''), (''refresh_token'', JStr ''1//0g'')]"

definition sample_redirect :: string where
  "sample_redirect = ''https://hub.example.com/actions/google_drive/oauth_redirect''"

definition sample_state_json :: string where
  \<open>sample_state_json = ''{"tokens":{"access_token":"ya29.a0","refresh_token":"1//0g"},"redirect":"https://hub.example.com/actions/google_drive/oauth_redirect"}''\<close>

definition revoked_state_json :: string where
  \<open>revoked_state_json = ''{"tokens":"revoked","redirect":"https://hub.example.com/actions/google_drive/oauth_redirect"}''\<close>

definition sample_plaintext :: string where
  \<open>sample_plaintext = ''{"stateurl":"https://looker.example.com/action_hub_state/abc"}''\<close>

definition sample_post_body :: string where
  \<open>sample_post_body = ''{"tokens":{"access_token":"ya29.a0","refresh_token":"1//0g"},"redirect":"https://hub.example.com/actions/google_drive/oauth_redirect"}''\<close>

definition unauthorized :: thrown where
  "unauthorized = ThrownError ((plain_error ''Invalid Credentials'')\<lparr> e_status := JNum 401 \<rparr>)"

definition sample_world :: world where
  "sample_world =
     \<lparr> JSON_parse = (\<lambda>s.
         if s = sample_state_json
           then Inr (JObj [(''tokens'', sample_tokens), (''redirect'', JStr sample_redirect)])
         else if s = revoked_state_json
           then Inr (JObj [(''tokens'', JStr ''revoked''), (''redirect'', JStr sample_redirect)])
         else if s = sample_plaintext
           then Inr (JObj [(''stateurl'', JStr ''https://looker.example.com/action_hub_state/abc'')])
         else if s = ''null'' then Inr JNull
         else Inl (ThrownError (plain_error ''SyntaxError''))),
       JSON_stringify = (\<lambda>v.
         if v = JObj [(''tokens'', sample_tokens), (''redirect'', JStr sample_redirect)]
           then sample_post_body
         else ''{}''),
       to_string = (\<lambda>v. case v of JStr s \<Rightarrow> s | _ \<Rightarrow> ''undefined''),
       GOOGLE_DRIVE_CLIENT_ID = Some ''client-id'',
       GOOGLE_DRIVE_CLIENT_SECRET = Some ''client-secret'',
       ACTION_HUB_BASE_URL = Some ''https://hub.example.com'',
       encrypt = (\<lambda>p. Inr ''c2FtcGxl''),
       decrypt = (\<lambda>c. if c = Some ''c2FtcGxl'' then Inr sample_plaintext
                        else Inl (ThrownString ''Unsupported state or unable to authenticate data'')),
       new_ActionResponse =
         \<lparr> success = True, message = JUndefined, error = None, state = None, resp_webhookId = None \<rparr>,
       bad_request = \<lparr> he_code = JNum 400, he_status = ''BAD_REQUEST'', he_description = ''Bad Request'' \<rparr>,
       internal = \<lparr> he_code = JNum 500, he_status = ''INTERNAL'', he_description = ''Internal Error'' \<rparr>,
       errorWith = (\<lambda>h msg. \<lparr> http_code = he_code h, status_code = he_status h, err_message = msg,
                               location = ''ActionContainer'', documentation_url = ''TODO'' \<rparr>),
       generateAuthUrl = (\<lambda>client opts.
         ''https://accounts.google.com/o/oauth2/v2/auth?state='' @ auth_state opts),
       getToken = (\<lambda>client code. if code = Some ''4/0AX'' then Inr sample_tokens
                                  else Inl (ThrownError (plain_error ''invalid_grant''))),
       drives_list = (\<lambda>client n.
         if credentials client = sample_tokens
           then Inr (Some [\<lparr> drive_id = JStr ''0AExample'', drive_name = JStr ''Team Drive'' \<rparr>])
         else Inl unauthorized),
       files_list = (\<lambda>client opts.
         if credentials client = sample_tokens
           then Inr \<lparr> files = Some [JObj [(''id'', JStr ''f1''), (''name'', JStr ''Reports'')]],
                       nextPageToken = None \<rparr>
         else Inl unauthorized),
       files_create = (\<lambda>client ps.
         if credentials client = sample_tokens then Inr (JObj [(''id'', JStr ''new-file'')])
         else Inl unauthorized),
       https_post = (\<lambda>url body. case url of
           JStr u \<Rightarrow> Resolves ()
         | JUndefined \<Rightarrow> Rejects (ThrownError (plain_error ''options.uri is a required argument''))
         | _ \<Rightarrow> Throws TypeError),
       new_URL = (\<lambda>a. if a = ''sftp://files.example.com/upload''
                         then Inr \<lparr> pathname = ''/upload'', hostname = ''files.example.com'', port = None \<rparr>
                       else Inl TypeError),
       Path_join = (\<lambda>a b. a @ ''/'' @ b),
       sftp_connect = (\<lambda>c. Inr ()),
       sftp_put = (\<lambda>c d p. Inr ()) \<rparr>"

definition sample_request :: ActionRequest where
  "sample_request =
     \<lparr> params = [''state_json'' \<mapsto> sample_state_json, ''state_url'' \<mapsto> ''https://looker.example.com/action_hub_state/abc''],
       formParams = Map.empty,
       attachment = Some \<lparr> dataBuffer = Some [104, 105], mime = Some ''text/csv'' \<rparr>,
       webhookId = Some ''webhook-1'',
       suggestedFilename = Some ''report.csv'' \<rparr>"

definition tampered_urlParams :: "string \<rightharpoonup> string" where
  "tampered_urlParams = [''state'' \<mapsto> ''dGFtcGVyZWQ'', ''code'' \<mapsto> ''4/0AX'']"

definition sample_urlParams :: "string \<rightharpoonup> string" where
  "sample_urlParams = [''state'' \<mapsto> ''c2FtcGxl'', ''code'' \<mapsto> ''4/0AX'']"

definition sample_drive :: OAuth2Client where
  "sample_drive = driveClientFromRequest sample_world (JStr sample_redirect) sample_tokens"

text \<open>The entry \<open>getDrives\<close> starts its list with.\<close>

definition mydrive :: select_option where
  "mydrive = \<lparr> opt_name = JStr ''mydrive'', opt_label = JStr ''My Drive'' \<rparr>"

definition sftp_request_no_address :: ActionRequest where
  "sftp_request_no_address =
     \<lparr> params = Map.empty,
       formParams = [''username'' \<mapsto> ''looker'', ''password'' \<mapsto> ''secret''],
       attachment = Some \<lparr> dataBuffer = Some [104, 105], mime = Some ''text/csv'' \<rparr>,
       webhookId = Some ''webhook-2'',
       suggestedFilename = Some ''report.csv'' \<rparr>"

definition sftp_request_no_attachment :: ActionRequest where
  "sftp_request_no_attachment =
     \<lparr> params = Map.empty,
       formParams = [''address'' \<mapsto> ''sftp://files.example.com/upload''],
       attachment = None,
       webhookId = Some ''webhook-3'',
       suggestedFilename = None \<rparr>"

definition revoked_request :: ActionRequest where
  "revoked_request = sample_request\<lparr> params := [''state_json'' \<mapsto> revoked_state_json] \<rparr>"

definition null_state_request :: ActionRequest where
  "null_state_request = sample_request\<lparr> params := [''state_json'' \<mapsto> ''null''] \<rparr>"

definition replayed_request :: ActionRequest where
  "replayed_request = sample_request\<lparr> attachment := None, webhookId := Some ''webhook-9'',
     suggestedFilename := None \<rparr>"

definition login_request :: ActionRequest where
  "login_request = sample_request
     \<lparr> params := [''state_url'' \<mapsto> ''https://looker.example.com/action_hub_state/abc''] \<rparr>"

definition search_request :: ActionRequest where
  "search_request = sample_request\<lparr> formParams := [''search'' \<mapsto> ''Rep''] \<rparr>"

text \<open>The sample world with a codec that returns another ciphertext.\<close>

definition other_codec_world :: world where
  "other_codec_world = sample_world\<lparr> encrypt := (\<lambda>p. Inr ''b3RoZXI'') \<rparr>"

text \<open>The sample world with other answers from the collaborators that \<open>form\<close> does not call.\<close>

definition other_transport_world :: world where
  "other_transport_world = sample_world
     \<lparr> to_string := (\<lambda>v. ''[object Object]''),
       decrypt := (\<lambda>c. Inl (ThrownString ''no key'')),
       getToken := (\<lambda>client code. Inl unauthorized),
       files_create := (\<lambda>client ps. Inl unauthorized),
       https_post := (\<lambda>url body. Rejects unauthorized),
       sftp_connect := (\<lambda>c. Inl (ThrownString ''connection refused'')) \<rparr>"

section \<open>Properties\<close>

subsection \<open>Facts about the samples\<close>

lemma sample_state_json_parsed:
  "params sample_request ''state_json'' = Some sample_state_json"
  "sample_state_json \<noteq> []"
  "JSON_parse sample_world sample_state_json
     = Inr (JObj [(''tokens'', sample_tokens), (''redirect'', JStr sample_redirect)])"
  "tokens_and_redirect (JObj [(''tokens'', sample_tokens), (''redirect'', JStr sample_redirect)])
     = Inr (Some (sample_tokens, JStr sample_redirect))"
  by (simp_all add: sample_request_def sample_state_json_def sample_world_def
      tokens_and_redirect_def sample_redirect_def sample_tokens_def)

lemma revoked_state_json_parsed:
  "params revoked_request ''state_json'' = Some revoked_state_json"
  "revoked_state_json \<noteq> []"
  "JSON_parse sample_world revoked_state_json
     = Inr (JObj [(''tokens'', JStr ''revoked''), (''redirect'', JStr sample_redirect)])"
  "tokens_and_redirect (JObj [(''tokens'', JStr ''revoked''), (''redirect'', JStr sample_redirect)])
     = Inr (Some (JStr ''revoked'', JStr sample_redirect))"
  by (simp_all add: revoked_request_def revoked_state_json_def sample_state_json_def
      sample_world_def tokens_and_redirect_def sample_redirect_def)

lemma sample_provider:
  "drives_list sample_world sample_drive 50
     = Inr (Some [\<lparr> drive_id = JStr ''0AExample'', drive_name = JStr ''Team Drive'' \<rparr>])"
  "files_list sample_world sample_drive opts
     = Inr \<lparr> files = Some [JObj [(''id'', JStr ''f1''), (''name'', JStr ''Reports'')]],
              nextPageToken = None \<rparr>"
  "files_list sample_world (driveClientFromRequest sample_world r (JStr ''revoked'')) opts
     = Inl unauthorized"
  by (simp_all add: sample_world_def sample_drive_def driveClientFromRequest_def oauth2Client_def
      sample_tokens_def)


subsection \<open>The OAuth flow\<close>

text \<open>
  C1.  When decrypting \<open>urlParams.state\<close> fails, \<open>oauthFetchInfo\<close> rejects with the
  decryption error itself: the flow makes no token exchange and no POST, and it does
  not go on with a default state.
\<close>

theorem oauthFetchInfo_decrypt_failure:
  assumes "decrypt w (urlParams ''state'') = Inl err"
  shows "oauthFetchInfo w urlParams redirect = ([], Inl err)
         \<and> (\<forall>client code. TokenExchange client code \<notin> set (fst (oauthFetchInfo w urlParams redirect)))
         \<and> (\<forall>url body. HttpPost url body \<notin> set (fst (oauthFetchInfo w urlParams redirect)))"
  using assms by (simp add: oauthFetchInfo_def)

theorem oauthFetchInfo_decrypt_failure_witness:
  "decrypt sample_world (tampered_urlParams ''state'')
     = Inl (ThrownString ''Unsupported state or unable to authenticate data'')
   \<and> oauthFetchInfo sample_world tampered_urlParams sample_redirect
     = ([], Inl (ThrownString ''Unsupported state or unable to authenticate data''))"
proof -
  have h: "decrypt sample_world (tampered_urlParams ''state'')
     = Inl (ThrownString ''Unsupported state or unable to authenticate data'')"
    by (simp add: sample_world_def tampered_urlParams_def)
  from oauthFetchInfo_decrypt_failure [of sample_world tampered_urlParams _ sample_redirect, OF h] h
  show ?thesis by simp
qed

text \<open>
  C2.  The happy path.  \<open>oauthUrl\<close> hands the encrypted state to the library's URL
  generator as its \<open>state\<close> option and returns the generated URL unchanged.  When that
  state comes back in \<open>urlParams.state\<close>, decrypts to a JSON document with a
  \<open>stateurl\<close>, and the code is valid (the token exchange succeeds), \<open>oauthFetchInfo\<close>
  exchanges the code and then calls \<open>https.post\<close> with that \<open>stateurl\<close> as \<open>url\<close>
  and \<open>JSON.stringify({tokens, redirect})\<close> as \<open>body\<close>, and makes no other call.  It
  resolves whether the POST's promise resolves or rejects; it rejects only when the
  call to \<open>https.post\<close> itself throws.
\<close>

theorem oauth_happy_path:
  assumes "urlParams ''state'' = Some encryptedState"
    and "decrypt w (Some encryptedState) = Inr plaintext"
    and "getToken w (oauth2Client w (JStr redirect)) (urlParams ''code'') = Inr tokens"
    and "JSON_parse w plaintext = Inr payload"
    and "get_prop payload ''stateurl'' = Inr returnUrl"
  shows "oauthUrl w redirect encryptedState
           = generateAuthUrl w (oauth2Client w (JStr redirect))
               \<lparr> access_type = ''offline'', scope = [''https://www.googleapis.com/auth/drive''],
                 prompt = ''consent'', auth_state = encryptedState \<rparr>
         \<and> oauthFetchInfo w urlParams redirect
           = ([TokenExchange (oauth2Client w (JStr redirect)) (urlParams ''code''),
               HttpPost returnUrl
                 (JSON_stringify w (JObj [(''tokens'', tokens), (''redirect'', JStr redirect)]))],
              (case https_post w returnUrl
                      (JSON_stringify w (JObj [(''tokens'', tokens), (''redirect'', JStr redirect)])) of
                 Throws e \<Rightarrow> Inl e
               | Rejects e \<Rightarrow> Inr ()
               | Resolves u \<Rightarrow> Inr ()))"
  using assms
  by (simp add: oauthUrl_def oauthFetchInfo_def getAccessTokenCredentialsFromCode_def
      split: sum.splits call.splits)

theorem oauth_happy_path_witness:
  "oauthUrl sample_world sample_redirect ''c2FtcGxl''
     = ''https://accounts.google.com/o/oauth2/v2/auth?state=c2FtcGxl''
   \<and> oauthFetchInfo sample_world sample_urlParams sample_redirect
     = ([TokenExchange (oauth2Client sample_world (JStr sample_redirect)) (Some ''4/0AX''),
         HttpPost (JStr ''https://looker.example.com/action_hub_state/abc'') sample_post_body],
        Inr ())"
proof -
  have h1: "sample_urlParams ''state'' = Some ''c2FtcGxl''"
    by (simp add: sample_urlParams_def)
  have h2: "decrypt sample_world (Some ''c2FtcGxl'') = Inr sample_plaintext"
    by (simp add: sample_world_def)
  have h3: "getToken sample_world (oauth2Client sample_world (JStr sample_redirect))
              (sample_urlParams ''code'') = Inr sample_tokens"
    by (simp add: sample_world_def sample_urlParams_def)
  have h4: "JSON_parse sample_world sample_plaintext
              = Inr (JObj [(''stateurl'', JStr ''https://looker.example.com/action_hub_state/abc'')])"
    by (simp add: sample_world_def sample_plaintext_def sample_state_json_def revoked_state_json_def)
  have h5: "get_prop (JObj [(''stateurl'', JStr ''https://looker.example.com/action_hub_state/abc'')])
              ''stateurl'' = Inr (JStr ''https://looker.example.com/action_hub_state/abc'')"
    by simp
  have g: "generateAuthUrl sample_world c \<lparr> access_type = a, scope = sc, prompt = p, auth_state = st \<rparr>
             = ''https://accounts.google.com/o/oauth2/v2/auth?state='' @ st" for c a sc p st
    by (simp add: sample_world_def)
  have j: "JSON_stringify sample_world (JObj [(''tokens'', sample_tokens), (''redirect'', JStr sample_redirect)])
             = sample_post_body"
    by (simp add: sample_world_def)
  have c: "sample_urlParams ''code'' = Some ''4/0AX''"
    by (simp add: sample_urlParams_def)
  have p: "https_post sample_world (JStr u) b = Resolves ()" for u b
    by (simp add: sample_world_def)
  from oauth_happy_path [OF h1 h2 h3 h4 h5] show ?thesis
    by (simp add: g j c p)
qed

text \<open>
  C5.  \<open>oauthCheck\<close> answers with a boolean and has no \<open>catch\<close>: when the provider
  rejects the probe, the rejection leaves \<open>oauthCheck\<close> as it came.  At the sample
  request with revoked tokens the outcome is the provider's 401 error, not a \<open>false\<close>
  result; no response and no reset sentinel is built.
\<close>

theorem oauthCheck_provider_rejection_counterexample:
  "params revoked_request ''state_json'' = Some revoked_state_json
   \<and> files_list sample_world
        (driveClientFromRequest sample_world (JStr sample_redirect) (JStr ''revoked''))
        \<lparr> lo_fields = None, orderBy = None, pageSize = Some 10, q = None, spaces = None,
          corpora = None, lo_driveId = None, includeItemsFromAllDrives = None,
          lo_supportsAllDrives = None, pageToken = None \<rparr> = Inl unauthorized
   \<and> oauthCheck sample_world revoked_request = Inl unauthorized
   \<and> oauthCheck sample_world revoked_request \<noteq> Inr False"
  by (simp add: oauthCheck_def revoked_state_json_parsed sample_provider)

text \<open>
  C5, as the code has it.  With a non-empty \<open>state_json\<close> that parses to a value with
  truthy \<open>tokens\<close> and \<open>redirect\<close>, \<open>oauthCheck\<close> returns \<open>true\<close> when the probe
  \<open>drive.files.list({pageSize: 10})\<close> succeeds and rejects with the provider's error,
  unchanged, when the probe is rejected; it never returns \<open>false\<close> there.
\<close>

theorem oauthCheck_outcomes:
  assumes "params request ''state_json'' = Some state_json" and "state_json \<noteq> []"
    and "JSON_parse w state_json = Inr stateJson"
    and "tokens_and_redirect stateJson = Inr (Some (tokens, redirect))"
  shows "oauthCheck w request =
           (case files_list w (driveClientFromRequest w redirect tokens)
                   \<lparr> lo_fields = None, orderBy = None, pageSize = Some 10, q = None, spaces = None,
                     corpora = None, lo_driveId = None, includeItemsFromAllDrives = None,
                     lo_supportsAllDrives = None, pageToken = None \<rparr> of
              Inl e \<Rightarrow> Inl e
            | Inr r \<Rightarrow> Inr True)
         \<and> oauthCheck w request \<noteq> Inr False"
  using assms by (simp add: oauthCheck_def split: sum.splits)

theorem oauthCheck_outcomes_witness:
  "oauthCheck sample_world revoked_request = Inl unauthorized
   \<and> oauthCheck sample_world sample_request = Inr True"
proof -
  have d: "driveClientFromRequest sample_world (JStr sample_redirect) sample_tokens = sample_drive"
    by (simp add: sample_drive_def)
  from oauthCheck_outcomes [OF revoked_state_json_parsed]
       oauthCheck_outcomes [OF sample_state_json_parsed]
  show ?thesis by (simp add: d sample_provider)
qed

subsection \<open>Execute of the Google Drive action\<close>

text \<open>
  What \<open>execute\<close> does for a missing or empty \<open>state_json\<close>, and for one that parses to
  a value whose \<open>tokens\<close> or \<open>redirect\<close> reads as falsy: the reset response, and no
  call at all.
\<close>

lemma GoogleDriveAction_execute_reset:
  assumes "\<not> truthy_str (params request ''state_json'')
           \<or> (\<exists>state_json stateJson. params request ''state_json'' = Some state_json
                \<and> JSON_parse w state_json = Inr stateJson
                \<and> tokens_and_redirect stateJson = Inr None)"
  shows "GoogleDriveAction_execute w request
           = ([], Inr ((new_ActionResponse w)\<lparr> success := False,
                         state := Some \<lparr> data = Some ''reset'' \<rparr> \<rparr>))"
  using assms
  by (auto simp: GoogleDriveAction_execute_def truthy_str_def new_ActionState_def Let_def
      split: option.splits)

text \<open>
  C6.  An unusable state that \<open>execute\<close> does not answer with the reset response:
  \<open>state_json = "null"\<close>.  The string is truthy, \<open>JSON.parse\<close> returns \<open>null\<close>, and
  reading \<open>stateJson.tokens\<close> throws; \<open>execute\<close> has no \<open>try\<close> around it (\<open>form\<close>
  has), so the promise rejects with the TypeError.
\<close>

theorem GoogleDriveAction_execute_null_state:
  "params null_state_request ''state_json'' = Some ''null''
   \<and> JSON_parse sample_world ''null'' = Inr JNull
   \<and> GoogleDriveAction_execute sample_world null_state_request = ([], Inl TypeError)"
  by (simp add: GoogleDriveAction_execute_def null_state_request_def sample_world_def
      tokens_and_redirect_def sample_state_json_def revoked_state_json_def sample_plaintext_def)

subsection \<open>Form negotiation\<close>

text \<open>
  C4.  The guard \<open>reason.status !== 401 || reason.status !== 403\<close> holds for every
  status value, so for every rejection reason the handler returns the empty file list
  and never falls through to return \<open>undefined\<close>.
\<close>

theorem files_list_catch_always_empty:
  "(strict_neq_num status 401 \<or> strict_neq_num status 403)
   \<and> files_list_catch reason = Some \<lparr> files = Some [], nextPageToken = None \<rparr>
   \<and> files_list_catch reason \<noteq> None"
  by (auto simp: strict_neq_num_def files_list_catch_def)

theorem files_list_catch_always_empty_witness:
  "thrown_status unauthorized = JNum 401
   \<and> strict_neq_num (JNum 401) 403
   \<and> files_list_catch unauthorized = Some \<lparr> files = Some [], nextPageToken = None \<rparr>"
  using files_list_catch_always_empty [of "JNum 401" unauthorized]
  by (simp add: unauthorized_def strict_neq_num_def)

text \<open>
  C7.  The login form carries the ciphertext that \<open>encrypt\<close> returns.  The same request,
  with no \<open>state_json\<close>, against two worlds that answer every Drive listing and every
  JSON call alike and differ only in that ciphertext, gets two different forms.
\<close>

theorem form_depends_on_encrypt_counterexample:
  "JSON_parse sample_world = JSON_parse other_codec_world
   \<and> JSON_stringify sample_world = JSON_stringify other_codec_world
   \<and> drives_list sample_world = drives_list other_codec_world
   \<and> files_list sample_world = files_list other_codec_world
   \<and> GoogleDriveAction_form 0 sample_world login_request
       \<noteq> GoogleDriveAction_form 0 other_codec_world login_request"
  by (simp add: GoogleDriveAction_form_def loginForm_def login_request_def sample_request_def
      other_codec_world_def sample_world_def new_ActionForm_def new_field_def)

lemma pagedFileList_files_list:
  assumes "files_list w1 = files_list w2"
  shows "pagedFileList fuel w1 drive options acc response
           = pagedFileList fuel w2 drive options acc response"
proof (induction fuel arbitrary: acc response)
  case 0
  show ?case by simp
next
  case (Suc fuel)
  show ?case
    by (simp add: assms Suc.IH Let_def split: option.splits sum.splits)
qed

lemma getDrives_drives_list:
  assumes d: "drives_list w1 = drives_list w2"
  shows "getDrives w1 drive = getDrives w2 drive"
  unfolding getDrives_def d by (rule refl)

lemma driveClientFromRequest_env:
  assumes i: "GOOGLE_DRIVE_CLIENT_ID w1 = GOOGLE_DRIVE_CLIENT_ID w2"
    and k: "GOOGLE_DRIVE_CLIENT_SECRET w1 = GOOGLE_DRIVE_CLIENT_SECRET w2"
  shows "driveClientFromRequest w1 redirect tokens = driveClientFromRequest w2 redirect tokens"
  unfolding driveClientFromRequest_def oauth2Client_def i k by (rule refl)

lemma loginForm_inputs:
  assumes p: "params r1 = params r2"
    and j: "JSON_stringify w1 = JSON_stringify w2"
    and e: "encrypt w1 = encrypt w2"
    and b: "ACTION_HUB_BASE_URL w1 = ACTION_HUB_BASE_URL w2"
  shows "loginForm w1 r1 = loginForm w2 r2"
  unfolding loginForm_def p j e b by (rule refl)

lemma folder_fields_inputs:
  assumes f: "formParams r1 = formParams r2"
    and l: "files_list w1 = files_list w2"
  shows "folder_fields fuel w1 r1 drive = folder_fields fuel w2 r2 drive"
  unfolding folder_fields_def f l pagedFileList_files_list [OF l] by (rule refl)

lemma form_try_inputs:
  assumes f: "formParams r1 = formParams r2"
    and p: "JSON_parse w1 = JSON_parse w2"
    and j: "JSON_stringify w1 = JSON_stringify w2"
    and d: "drives_list w1 = drives_list w2"
    and l: "files_list w1 = files_list w2"
    and i: "GOOGLE_DRIVE_CLIENT_ID w1 = GOOGLE_DRIVE_CLIENT_ID w2"
    and k: "GOOGLE_DRIVE_CLIENT_SECRET w1 = GOOGLE_DRIVE_CLIENT_SECRET w2"
  shows "form_try fuel w1 r1 state_json = form_try fuel w2 r2 state_json"
  unfolding form_try_def p j driveClientFromRequest_env [OF i k]
    getDrives_drives_list [OF d] folder_fields_inputs [OF f l]
  by (rule refl)

text \<open>
  C7, as the code has it.  The result of \<open>form\<close> is determined by \<open>request.params\<close>,
  \<open>request.formParams\<close>, the answers of the Drive listing calls, of \<open>JSON.parse\<close> and
  \<open>JSON.stringify\<close>, the ciphertext that \<open>encrypt\<close> returns, and the configured client
  id, client secret and base URL: two invocations that agree on these get the same
  result, state blob included, whatever the rest of the two requests and whatever the
  other collaborators answer.
\<close>

theorem form_inputs:
  assumes "params r1 = params r2" and "formParams r1 = formParams r2"
    and "JSON_parse w1 = JSON_parse w2" and "JSON_stringify w1 = JSON_stringify w2"
    and "drives_list w1 = drives_list w2" and "files_list w1 = files_list w2"
    and "encrypt w1 = encrypt w2"
    and "GOOGLE_DRIVE_CLIENT_ID w1 = GOOGLE_DRIVE_CLIENT_ID w2"
    and "GOOGLE_DRIVE_CLIENT_SECRET w1 = GOOGLE_DRIVE_CLIENT_SECRET w2"
    and "ACTION_HUB_BASE_URL w1 = ACTION_HUB_BASE_URL w2"
  shows "GoogleDriveAction_form fuel w1 r1 = GoogleDriveAction_form fuel w2 r2"
  unfolding GoogleDriveAction_form_def assms(1)
    loginForm_inputs [OF assms(1) assms(4) assms(7) assms(10)]
    form_try_inputs [OF assms(2) assms(3) assms(4) assms(5) assms(6) assms(8) assms(9)]
  by (rule refl)

theorem form_inputs_witness:
  "webhookId sample_request \<noteq> webhookId replayed_request
   \<and> attachment sample_request \<noteq> attachment replayed_request
   \<and> https_post sample_world \<noteq> https_post other_transport_world
   \<and> decrypt sample_world \<noteq> decrypt other_transport_world
   \<and> GoogleDriveAction_form (Suc 0) sample_world sample_request
       = GoogleDriveAction_form (Suc 0) other_transport_world replayed_request
   \<and> GoogleDriveAction_form (Suc 0) sample_world search_request
       = GoogleDriveAction_form (Suc 0) other_transport_world search_request
   \<and> GoogleDriveAction_form (Suc 0) sample_world login_request
       = GoogleDriveAction_form (Suc 0) other_transport_world login_request"
proof -
  have r: "params sample_request = params replayed_request"
          "formParams sample_request = formParams replayed_request"
    by (simp_all add: replayed_request_def)
  have w: "JSON_parse sample_world = JSON_parse other_transport_world"
          "JSON_stringify sample_world = JSON_stringify other_transport_world"
          "drives_list sample_world = drives_list other_transport_world"
          "files_list sample_world = files_list other_transport_world"
          "encrypt sample_world = encrypt other_transport_world"
          "GOOGLE_DRIVE_CLIENT_ID sample_world = GOOGLE_DRIVE_CLIENT_ID other_transport_world"
          "GOOGLE_DRIVE_CLIENT_SECRET sample_world = GOOGLE_DRIVE_CLIENT_SECRET other_transport_world"
          "ACTION_HUB_BASE_URL sample_world = ACTION_HUB_BASE_URL other_transport_world"
    by (simp_all add: other_transport_world_def)
  have d: "webhookId sample_request \<noteq> webhookId replayed_request"
          "attachment sample_request \<noteq> attachment replayed_request"
    by (simp_all add: replayed_request_def sample_request_def)
  have "https_post sample_world (JStr ''u'') ''b'' \<noteq> https_post other_transport_world (JStr ''u'') ''b''"
    by (simp add: other_transport_world_def sample_world_def)
  then have t: "https_post sample_world \<noteq> https_post other_transport_world"
    by metis
  have "decrypt sample_world (Some ''c2FtcGxl'') \<noteq> decrypt other_transport_world (Some ''c2FtcGxl'')"
    by (simp add: other_transport_world_def sample_world_def)
  then have c: "decrypt sample_world \<noteq> decrypt other_transport_world"
    by metis
  from form_inputs [OF r w, of "Suc 0"]
       form_inputs [OF refl refl w, of "Suc 0" search_request]
       form_inputs [OF refl refl w, of "Suc 0" login_request]
       d t c
  show ?thesis by simp
qed

lemma getDrives_listed:
  "drives_list w drive 50 = Inr shared \<Longrightarrow>
   getDrives w drive = Inr (mydrive #
     map (\<lambda>d. \<lparr> opt_name = drive_id d, opt_label = drive_name d \<rparr>)
       (case shared of None \<Rightarrow> [] | Some ds \<Rightarrow> ds))"
  by (simp add: getDrives_def mydrive_def split: option.splits)

lemma folder_fields_no_search:
  "formParams request ''search'' = None \<Longrightarrow> folder_fields fuel w request drive = Some (Inr [])"
  by (simp add: folder_fields_def)

lemma form_try_no_search:
  assumes "JSON_parse w state_json = Inr stateJson"
    and "tokens_and_redirect stateJson = Inr (Some (tokens, redirect))"
    and "drives_list w (driveClientFromRequest w redirect tokens) 50 = Inr shared"
    and "formParams request ''search'' = None"
  shows "\<exists>f. form_try fuel w request state_json = Some (Inr (Some f))
           \<and> map field_name (form_fields f) = [''drive'', ''fetch'', ''search'']
           \<and> map field_interactive (form_fields f) = [Some True, Some True, None]
           \<and> form_state f = Some \<lparr> data = Some (JSON_stringify w
                 (JObj [(''tokens'', tokens), (''redirect'', redirect)])) \<rparr>"
proof -
  let ?drive = "driveClientFromRequest w redirect tokens"
  have "\<exists>rest. getDrives w ?drive = Inr (mydrive # rest)"
    using getDrives_listed [OF assms(3)] by blast
  then obtain rest where g: "getDrives w ?drive = Inr (mydrive # rest)" ..
  have ff: "folder_fields fuel w request ?drive = Some (Inr [])"
    using assms(4) by (rule folder_fields_no_search)
  show ?thesis
    by (simp add: form_try_def assms(1,2) g ff new_field_def new_ActionForm_def
        new_ActionState_def)
qed



text \<open>
  The folder listing completes in particular when its first page is rejected, whatever
  the reason and whatever \<open>formParams.drive\<close> holds: the handler's empty list goes
  through the paging loop, and the \<open>folder\<close> field offers the drive root alone.
\<close>

lemma folder_fields_first_page_rejected:
  assumes "formParams request ''search'' = Some search"
    and "\<And>options. files_list w drive options = Inl reason"
  shows "folder_fields (Suc fuel) w request drive = Some (Inr
           [ (new_field ''folder'' ''Select folder to save file'' ''select'')
               \<lparr> field_description := Some ''Google Drive folder where your file will be saved'',
                 field_options := Some [\<lparr> opt_name = JStr ''root'', opt_label = JStr ''Drive Root'' \<rparr>],
                 field_default := Some (JStr ''root''),
                 field_required := Some True \<rparr>,
             (new_field ''filename'' ''Enter a name'' ''string'')
               \<lparr> field_required := Some True \<rparr> ])"
proof -
  have c: "files_list_catch reason = Some \<lparr> files = Some [], nextPageToken = None \<rparr>"
    by (auto simp: files_list_catch_def strict_neq_num_def)
  show ?thesis
    by (simp add: folder_fields_def assms c truthy_str_def Let_def)
qed




lemma getDrives_Inr:
  "getDrives w drive = Inr ds \<Longrightarrow> \<exists>rest. ds = mydrive # rest"
  by (auto simp: getDrives_def mydrive_def Let_def split: sum.splits option.splits)

lemma folder_fields_names:
  "folder_fields fuel w request drive = Some (Inr ffields) \<Longrightarrow> fld \<in> set ffields
   \<Longrightarrow> field_name fld \<noteq> ''drive''"
  by (auto simp: folder_fields_def new_field_def Let_def split: option.splits sum.splits)

lemma loginForm_names:
  "loginForm w request = Inr f \<Longrightarrow> fld \<in> set (form_fields f) \<Longrightarrow> field_name fld \<noteq> ''drive''"
  by (auto simp: loginForm_def new_field_def new_ActionForm_def split: sum.splits)

lemma form_try_shape:
  assumes "form_try fuel w request state_json = Some (Inr (Some f))"
  shows "\<exists>dfield drive ffields tail.
           form_fields f = dfield # ffields @ tail
           \<and> field_default dfield = Some (JStr ''mydrive'')
           \<and> folder_fields fuel w request drive = Some (Inr ffields)
           \<and> (\<forall>t \<in> set tail. field_name t \<noteq> ''drive'')"
proof -
  from assms obtain stateJson tokens redirect first_drive more_drives ffields where
    g: "getDrives w (driveClientFromRequest w redirect tokens) = Inr (first_drive # more_drives)"
    and ff: "folder_fields fuel w request (driveClientFromRequest w redirect tokens) = Some (Inr ffields)"
    and f: "form_fields f =
        ((new_field ''drive'' ''Select Drive to save file'' ''select'')
           \<lparr> field_description := Some ''Google Drive where your file will be saved'',
             field_options := Some (first_drive # more_drives),
             field_default := Some (opt_name first_drive),
             field_interactive := Some True,
             field_required := Some True \<rparr>) # ffields @
        [ (new_field ''fetch'' ''Fetch Folders'' ''select'')
            \<lparr> field_description := Some (''After entering text to search below, select ''
                 @ [CHR 0x22] @ ''Fetch Folders'' @ [CHR 0x22]),
              field_required := Some True,
              field_interactive := Some True,
              field_options := Some
                [ \<lparr> opt_name = JStr ''reset'', opt_label = JStr ''Reset'' \<rparr>,
                  \<lparr> opt_name = JStr ''fetch'', opt_label = JStr ''Fetch Folders'' \<rparr> ] \<rparr>,
          (new_field ''search'' ''Folder Name Search'' ''string'')
            \<lparr> field_required := Some True \<rparr> ]"
    by (auto simp: form_try_def Let_def new_ActionForm_def
        split: sum.splits option.splits list.splits)
  from getDrives_Inr [OF g] have "first_drive = mydrive" by simp
  then have "opt_name first_drive = JStr ''mydrive''" by (simp add: mydrive_def)
  with ff f show ?thesis
    by (intro exI conjI) (assumption | simp add: new_field_def)+
qed

lemma form_try_drive_default:
  assumes "form_try fuel w request state_json = Some (Inr (Some f))"
    and "fld \<in> set (form_fields f)" and "field_name fld = ''drive''"
  shows "field_default fld = Some (JStr ''mydrive'')"
proof -
  from form_try_shape [OF assms(1)] obtain dfield drive ffields tail where
    fs: "form_fields f = dfield # ffields @ tail"
    and d: "field_default dfield = Some (JStr ''mydrive'')"
    and ff: "folder_fields fuel w request drive = Some (Inr ffields)"
    and t: "\<forall>t \<in> set tail. field_name t \<noteq> ''drive''"
    by blast
  from assms(2) fs have "fld = dfield \<or> fld \<in> set ffields \<or> fld \<in> set tail" by auto
  with assms(3) d t folder_fields_names [OF ff] show ?thesis by blast
qed

text \<open>
  C10.  When the drive listing answers, \<open>getDrives\<close> returns \<open>{name: "mydrive", label:
  "My Drive"}\<close> followed by the shared drives in the order listed; whatever it returns
  is non-empty and starts with that entry; and in every form that \<open>form\<close> returns, a
  field named \<open>drive\<close> has the default \<open>"mydrive"\<close>.
\<close>

theorem getDrives_mydrive_first:
  "(drives_list w drive 50 = Inr shared \<longrightarrow>
      getDrives w drive = Inr (mydrive #
        map (\<lambda>d. \<lparr> opt_name = drive_id d, opt_label = drive_name d \<rparr>)
          (case shared of None \<Rightarrow> [] | Some ds \<Rightarrow> ds)))
   \<and> (getDrives w drive = Inr driveSelections \<longrightarrow>
        driveSelections \<noteq> [] \<and> hd driveSelections = mydrive)
   \<and> (GoogleDriveAction_form fuel w request = Some (Inr f) \<longrightarrow>
        (\<forall>fld \<in> set (form_fields f).
           field_name fld = ''drive'' \<longrightarrow> field_default fld = Some (JStr ''mydrive'')))"
proof (intro conjI impI ballI)
  assume "drives_list w drive 50 = Inr shared"
  then show "getDrives w drive = Inr (mydrive #
        map (\<lambda>d. \<lparr> opt_name = drive_id d, opt_label = drive_name d \<rparr>)
          (case shared of None \<Rightarrow> [] | Some ds \<Rightarrow> ds))"
    by (rule getDrives_listed)
next
  assume "getDrives w drive = Inr driveSelections"
  then obtain rest where "driveSelections = mydrive # rest"
    using getDrives_Inr by blast
  then show "driveSelections \<noteq> []" and "hd driveSelections = mydrive" by simp_all
next
  fix fld
  assume r: "GoogleDriveAction_form fuel w request = Some (Inr f)"
    and m: "fld \<in> set (form_fields f)" and nm: "field_name fld = ''drive''"
  from r consider (login) "loginForm w request = Inr f"
    | (authorized) state_json where "form_try fuel w request state_json = Some (Inr (Some f))"
    by (auto simp: GoogleDriveAction_form_def split: option.splits if_splits sum.splits)
  then show "field_default fld = Some (JStr ''mydrive'')"
  proof cases
    case login
    with m nm show ?thesis using loginForm_names by blast
  next
    case authorized
    with m nm show ?thesis using form_try_drive_default by blast
  qed
qed

theorem getDrives_mydrive_first_witness:
  "drives_list sample_world sample_drive 50
     = Inr (Some [\<lparr> drive_id = JStr ''0AExample'', drive_name = JStr ''Team Drive'' \<rparr>])
   \<and> getDrives sample_world sample_drive
     = Inr [mydrive, \<lparr> opt_name = JStr ''0AExample'', opt_label = JStr ''Team Drive'' \<rparr>]
   \<and> (\<exists>f fld. GoogleDriveAction_form 0 sample_world sample_request = Some (Inr f)
          \<and> fld \<in> set (form_fields f) \<and> field_name fld = ''drive''
          \<and> field_default fld = Some (JStr ''mydrive''))"
proof -
  have s: "formParams sample_request ''search'' = None"
    by (simp add: sample_request_def)
  from form_try_no_search
         [OF sample_state_json_parsed(3,4) sample_provider(1) [unfolded sample_drive_def] s, of 0]
  obtain f where ft: "form_try 0 sample_world sample_request sample_state_json = Some (Inr (Some f))"
    and n: "map field_name (form_fields f) = [''drive'', ''fetch'', ''search'']"
    by (elim exE conjE)
  from ft have f: "GoogleDriveAction_form 0 sample_world sample_request = Some (Inr f)"
    by (simp add: GoogleDriveAction_form_def sample_state_json_parsed(1,2))
  from n obtain fld rest where fs: "form_fields f = fld # rest" and nm: "field_name fld = ''drive''"
    by (cases "form_fields f") auto
  from fs have m: "fld \<in> set (form_fields f)" by simp
  note t = getDrives_mydrive_first
             [of sample_world sample_drive
                 "Some [\<lparr> drive_id = JStr ''0AExample'', drive_name = JStr ''Team Drive'' \<rparr>]"
                 "[mydrive, \<lparr> opt_name = JStr ''0AExample'', opt_label = JStr ''Team Drive'' \<rparr>]"
                 0 sample_request f]
  from t sample_provider(1) have g: "getDrives sample_world sample_drive
     = Inr [mydrive, \<lparr> opt_name = JStr ''0AExample'', opt_label = JStr ''Team Drive'' \<rparr>]"
    by simp
  from t f m nm have "field_default fld = Some (JStr ''mydrive'')" by blast
  with f m nm g sample_provider(1) show ?thesis by blast
qed

subsection \<open>Execute of the SFTP action\<close>

text \<open>
  C9.  Without an attachment, or without its \<open>dataBuffer\<close>, \<open>execute\<close> rejects with the
  bare string \<open>"Couldn't get data from attachment."\<close>; with the data but without a
  truthy \<open>address\<close> it rejects with the bare string \<open>"Needs a valid SFTP address. [1]"\<close>.
  Neither is an \<open>ActionResponse\<close>, and nothing has been called.
\<close>

theorem SFTPAction_execute_rejects_with_strings:
  "((attachment request = None \<or> (\<exists>a. attachment request = Some a \<and> dataBuffer a = None))
      \<longrightarrow> SFTPAction_execute w request
            = ([], Rejected (ThrownString ''Couldn't get data from attachment.'')))
   \<and> ((\<exists>a buf. attachment request = Some a \<and> dataBuffer a = Some buf)
        \<and> \<not> truthy_str (formParams request ''address'')
      \<longrightarrow> SFTPAction_execute w request
            = ([], Rejected (ThrownString ''Needs a valid SFTP address. [1]'')))"
  by (auto simp: SFTPAction_execute_def truthy_str_def split: option.splits)

theorem SFTPAction_execute_rejects_with_strings_witness:
  "attachment sftp_request_no_attachment = None
   \<and> SFTPAction_execute sample_world sftp_request_no_attachment
       = ([], Rejected (ThrownString ''Couldn't get data from attachment.''))
   \<and> (\<exists>a buf. attachment sftp_request_no_address = Some a \<and> dataBuffer a = Some buf)
   \<and> \<not> truthy_str (formParams sftp_request_no_address ''address'')
   \<and> SFTPAction_execute sample_world sftp_request_no_address
       = ([], Rejected (ThrownString ''Needs a valid SFTP address. [1]''))"
proof -
  have a: "attachment sftp_request_no_attachment = None"
    by (simp add: sftp_request_no_attachment_def)
  have b: "\<exists>a buf. attachment sftp_request_no_address = Some a \<and> dataBuffer a = Some buf"
    by (simp add: sftp_request_no_address_def)
  have c: "\<not> truthy_str (formParams sftp_request_no_address ''address'')"
    by (simp add: sftp_request_no_address_def truthy_str_def)
  from SFTPAction_execute_rejects_with_strings [of sftp_request_no_attachment sample_world]
       SFTPAction_execute_rejects_with_strings [of sftp_request_no_address sample_world]
       a b c
  show ?thesis by blast
qed

text \<open>
  C3.  The request with data and no \<open>address\<close>: \<open>execute\<close> rejects with a string; it
  does not resolve to a response with \<open>success = false\<close>.
\<close>

theorem SFTPAction_execute_missing_address_counterexample:
  "formParams sftp_request_no_address ''address'' = None
   \<and> SFTPAction_execute sample_world sftp_request_no_address
       = ([], Rejected (ThrownString ''Needs a valid SFTP address. [1]''))
   \<and> \<not> (\<exists>resp. snd (SFTPAction_execute sample_world sftp_request_no_address) = Resolved resp
              \<and> success resp = False)"
  by (simp add: SFTPAction_execute_def sftp_request_no_address_def)

text \<open>
  C3, as the code has it.  When \<open>address\<close> is absent, \<open>execute\<close> rejects with a bare
  string, \<open>"Couldn't get data from attachment."\<close> when the attachment or its
  \<open>dataBuffer\<close> is missing and \<open>"Needs a valid SFTP address. [1]"\<close> otherwise; it never
  resolves to a response, and neither \<open>client.connect\<close> nor \<open>client.put\<close> is called.
\<close>

theorem SFTPAction_execute_missing_address:
  assumes "formParams request ''address'' = None"
  shows "SFTPAction_execute w request
           = ([], Rejected (ThrownString
                (if attachment request = None \<or> (\<exists>a. attachment request = Some a \<and> dataBuffer a = None)
                 then ''Couldn't get data from attachment.''
                 else ''Needs a valid SFTP address. [1]'')))
         \<and> (\<forall>resp. snd (SFTPAction_execute w request) \<noteq> Resolved resp)
         \<and> (\<forall>c. SftpConnect c \<notin> set (fst (SFTPAction_execute w request)))
         \<and> (\<forall>buf path. SftpPut buf path \<notin> set (fst (SFTPAction_execute w request)))"
  using assms by (auto simp: SFTPAction_execute_def split: option.splits)

theorem SFTPAction_execute_missing_address_witness:
  "formParams sftp_request_no_address ''address'' = None
   \<and> SFTPAction_execute sample_world sftp_request_no_address
       = ([], Rejected (ThrownString ''Needs a valid SFTP address. [1]''))"
proof -
  have h: "formParams sftp_request_no_address ''address'' = None"
    by (simp add: sftp_request_no_address_def)
  have a: "attachment sftp_request_no_address = Some \<lparr> dataBuffer = Some [104, 105], mime = Some ''text/csv'' \<rparr>"
    by (simp add: sftp_request_no_address_def)
  from SFTPAction_execute_missing_address [OF h, of sample_world] h a
  show ?thesis by simp
qed

end
